theory Spec2Isabelle
  imports Complex_Main "HOL-Library.Sublist"
begin

section \<open>JavaScript numbers\<close>

text \<open>
  An amount is a JavaScript number: a binary64 floating-point value. The model keeps
  \<open>NaN\<close> and the two infinities apart and carries a finite value as the rational it
  denotes. Every result is rounded to the nearest binary64 value, ties to even
  (\<open>round64\<close>), overflowing to an infinity. The sign of zero is not kept: nothing the
  tracker computes tells \<open>-0\<close> from \<open>+0\<close>.
\<close>

datatype jsnum = NaN | PosInf | NegInf | Fin rat

definition pow2 :: "int \<Rightarrow> rat" where
  "pow2 k = (if 0 \<le> k then 2 ^ nat k else 1 / 2 ^ nat (- k))"

text \<open>
  The number of binary digits of a positive integer. The flag says that the argument
  has run out, so that the recursion unfolds only on a decided test.
\<close>

function bitLengthAux :: "bool \<Rightarrow> int \<Rightarrow> nat" where
  "bitLengthAux True n = 0"
| "bitLengthAux False n = Suc (bitLengthAux (n div 2 \<le> 0) (n div 2))"
  by pat_completeness auto
termination
  by (relation "measure (\<lambda>(done, n). if done then 0 else if 0 < n then nat n + 1 else 1)") auto

definition bitLength :: "int \<Rightarrow> nat" where
  "bitLength n = bitLengthAux (n \<le> 0) n"

text \<open>\<open>floorLog2 a\<close> is the \<open>e\<close> with \<open>2^e \<le> a < 2^(e+1)\<close>, for a positive \<open>a\<close>.\<close>

definition floorLog2 :: "rat \<Rightarrow> int" where
  "floorLog2 a =
     (if 1 \<le> a then int (bitLength \<lfloor>a\<rfloor>) - 1
      else - int (bitLength (\<lceil>1 / a\<rceil> - 1)))"

definition roundHalfEven :: "rat \<Rightarrow> int" where
  "roundHalfEven s =
     (let f = \<lfloor>s\<rfloor>; d = s - of_int f
      in if d < 1 / 2 then f
         else if 1 / 2 < d then f + 1
         else if even f then f else f + 1)"

text \<open>
  Rounding to binary64: \<open>m\<close> has at most 53 bits, the unit in the last place \<open>2^u\<close> is
  no smaller than \<open>2^-1074\<close>, and a rounded value \<open>m * 2^u\<close> of \<open>2^1024\<close> or more is an
  infinity.
\<close>

definition round64 :: "rat \<Rightarrow> jsnum" where
  "round64 q =
     (if q = 0 then Fin 0
      else
        let a = \<bar>q\<bar>;
            u = max (floorLog2 a - 52) (- 1074);
            m = roundHalfEven (a / pow2 u);
            v = of_int m * pow2 u
        in if 1024 \<le> u + int (bitLength m) - 1 then (if q < 0 then NegInf else PosInf)
           else Fin (if q < 0 then - v else v))"

fun jsadd :: "jsnum \<Rightarrow> jsnum \<Rightarrow> jsnum" where
  "jsadd NaN y = NaN"
| "jsadd x NaN = NaN"
| "jsadd PosInf NegInf = NaN"
| "jsadd NegInf PosInf = NaN"
| "jsadd PosInf y = PosInf"
| "jsadd x PosInf = PosInf"
| "jsadd NegInf y = NegInf"
| "jsadd x NegInf = NegInf"
| "jsadd (Fin a) (Fin b) = round64 (a + b)"

fun jsneg :: "jsnum \<Rightarrow> jsnum" where
  "jsneg NaN = NaN"
| "jsneg PosInf = NegInf"
| "jsneg NegInf = PosInf"
| "jsneg (Fin a) = Fin (- a)"

definition jssub :: "jsnum \<Rightarrow> jsnum \<Rightarrow> jsnum" where
  "jssub x y = jsadd x (jsneg y)"

text \<open>The comparison \<open>x <= y\<close>: false as soon as one side is \<open>NaN\<close>.\<close>

fun jsle :: "jsnum \<Rightarrow> jsnum \<Rightarrow> bool" where
  "jsle NaN y = False"
| "jsle x NaN = False"
| "jsle NegInf y = True"
| "jsle x PosInf = True"
| "jsle PosInf y = False"
| "jsle x NegInf = False"
| "jsle (Fin a) (Fin b) = (a \<le> b)"

text \<open>
  \<open>parseFloat\<close> applied to a number converts it to its shortest decimal text and reads
  that text back, which gives the number again.
\<close>

definition parseFloatNum :: "jsnum \<Rightarrow> jsnum" where
  "parseFloatNum x = x"

section \<open>Strings and \<open>parseFloat\<close>\<close>

text \<open>
  A \<open>string\<close> holds code units below 256. \<open>trim\<close> and \<open>parseFloat\<close> skip white space
  and line terminators; below 256 these are the seven code units of \<open>isWhiteSpace\<close>.
\<close>

definition isWhiteSpace :: "char \<Rightarrow> bool" where
  "isWhiteSpace c =
     (c \<in> set [CHR 0x09, CHR 0x0A, CHR 0x0B, CHR 0x0C, CHR 0x0D, CHR 0x20, CHR 0xA0])"

definition trimStart :: "string \<Rightarrow> string" where
  "trimStart s = dropWhile isWhiteSpace s"

definition trim :: "string \<Rightarrow> string" where
  "trim s = rev (dropWhile isWhiteSpace (rev (dropWhile isWhiteSpace s)))"

definition isDigit :: "char \<Rightarrow> bool" where
  "isDigit c = (c \<in> set ''0123456789'')"

definition digitVal :: "char \<Rightarrow> int" where
  "digitVal c = of_char c - 48"

definition digitsVal :: "string \<Rightarrow> int" where
  "digitsVal ds = foldl (\<lambda>a c. 10 * a + digitVal c) 0 ds"

definition scale10 :: "rat \<Rightarrow> int \<Rightarrow> rat" where
  "scale10 m e = (if 0 \<le> e then m * 10 ^ nat e else m / 10 ^ nat (- e))"

text \<open>A \<open>SignedInteger\<close> at the start of \<open>s\<close>: whether there is one, and its value.\<close>

definition hasSignedDigits :: "string \<Rightarrow> bool" where
  "hasSignedDigits s =
     (case s of
        [] \<Rightarrow> False
      | c # r \<Rightarrow>
          if c = CHR ''+'' \<or> c = CHR ''-'' then takeWhile isDigit r \<noteq> []
          else isDigit c)"

definition signedDigits :: "string \<Rightarrow> int" where
  "signedDigits s =
     (case s of
        [] \<Rightarrow> 0
      | c # r \<Rightarrow>
          if c = CHR ''+'' then digitsVal (takeWhile isDigit r)
          else if c = CHR ''-'' then - digitsVal (takeWhile isDigit r)
          else digitsVal (takeWhile isDigit s))"

text \<open>
  The \<open>ExponentPart\<close> that the longest literal prefix takes from \<open>s\<close>: an \<open>e\<close> or \<open>E\<close>
  counts only when a \<open>SignedInteger\<close> follows it.
\<close>

definition exponentPart :: "string \<Rightarrow> int" where
  "exponentPart s =
     (case s of
        [] \<Rightarrow> 0
      | c # r \<Rightarrow>
          if (c = CHR ''e'' \<or> c = CHR ''E'') \<and> hasSignedDigits r then signedDigits r else 0)"

text \<open>
  The value of the longest prefix of \<open>s\<close> that is a \<open>StrUnsignedDecimalLiteral\<close>
  (\<open>Infinity\<close>, digits with an optional fraction and exponent, or a fraction that starts
  with the point), rounded, and \<open>NaN\<close> when no prefix is one.
\<close>

definition strUnsignedDecimalLiteral :: "string \<Rightarrow> jsnum" where
  "strUnsignedDecimalLiteral s =
     (if take 8 s = ''Infinity'' then PosInf
      else
        let ip = takeWhile isDigit s; r1 = dropWhile isDigit s in
        (case r1 of
           [] \<Rightarrow> if ip = [] then NaN else round64 (of_int (digitsVal ip))
         | c # r \<Rightarrow>
             if c = CHR ''.'' then
               (let fp = takeWhile isDigit r; r2 = dropWhile isDigit r in
                if ip = [] \<and> fp = [] then NaN
                else round64
                       (scale10 (of_int (digitsVal ip) + of_int (digitsVal fp) / 10 ^ length fp)
                          (exponentPart r2)))
             else if ip = [] then NaN
             else round64 (scale10 (of_int (digitsVal ip)) (exponentPart r1))))"

text \<open>\<open>parseFloat\<close> on a string: leading white space is dropped, then an optional sign.\<close>

definition parseFloat :: "string \<Rightarrow> jsnum" where
  "parseFloat s =
     (case trimStart s of
        [] \<Rightarrow> NaN
      | c # r \<Rightarrow>
          if c = CHR ''-'' then jsneg (strUnsignedDecimalLiteral r)
          else if c = CHR ''+'' then strUnsignedDecimalLiteral r
          else strUnsignedDecimalLiteral (c # r))"

section \<open>The data model\<close>

text \<open>
  The object literal that \<open>handleFormSubmit\<close> hands to \<open>addTransaction\<close> has the five
  fields of \<open>entry\<close>; \<open>addTransaction\<close> spreads it between an \<open>id\<close> and a
  \<open>timestamp\<close>, which gives a \<open>transaction\<close>.
\<close>

record entry =
  title :: string
  amount :: jsnum
  type_tx :: string
  category :: string
  date :: string

record transaction = entry +
  id_tx :: string
  timestamp :: string

record filters =
  ftype :: string
  fcategory :: string
  fmonth :: string

text \<open>
  The fields of \<open>ExpenseTracker\<close> that the ledger operations read or assign.
  \<open>saveTransactions\<close>, \<open>updateUI\<close> and \<open>showNotification\<close> write to the host store, the
  document and the console and assign none of these fields; \<open>currentView\<close> is navigation
  state that no ledger operation reads.
\<close>

record ExpenseTracker =
  transactions :: "transaction list"
  filters :: filters

record amounts =
  income :: jsnum
  expenses :: jsnum

record totals = amounts +
  balance :: jsnum

record monthly = amounts +
  count :: nat
  net :: jsnum

section \<open>Ledger operations\<close>

text \<open>
  \<open>addTransaction\<close>: \<open>now\<close> is the reading of \<open>Date.now()\<close>, in milliseconds, and
  \<open>stamp\<close> the text of \<open>new Date().toISOString()\<close>; \<open>unshift\<close> puts the new transaction
  in front. The spread \<open>...transaction\<close> copies the five fields of the entry.
\<close>

definition newTransaction :: "string \<Rightarrow> string \<Rightarrow> entry \<Rightarrow> transaction" where
  "newTransaction i stamp e =
     \<lparr>title = title e, amount = amount e, type_tx = type_tx e, category = category e,
      date = date e, id_tx = i, timestamp = stamp\<rparr>"

text \<open>
  \<open>Number.prototype.toString\<close> on a clock reading: an integer of milliseconds, far
  below the \<open>10^21\<close> from which the exponent notation starts, so the text is the plain
  decimal one, with a minus sign for a reading before 1970.
\<close>

definition digitChar :: "int \<Rightarrow> char" where
  "digitChar d = ''0123456789'' ! nat d"

function toString :: "int \<Rightarrow> string" where
  "toString n =
     (if n < 0 then CHR ''-'' # toString (- n)
      else if n < 10 then [digitChar n]
      else toString (n div 10) @ [digitChar (n mod 10)])"
  by pat_completeness auto
termination
  by (relation "measure (\<lambda>n. if n < 0 then nat (- n) + 1 else nat n)") auto

declare toString.simps [simp del]

text \<open>Reading a decimal text with an optional minus sign, the inverse of \<open>toString\<close>.\<close>

definition readInt :: "string \<Rightarrow> int" where
  "readInt s =
     (case s of
        [] \<Rightarrow> 0
      | c # r \<Rightarrow> if c = CHR ''-'' then - digitsVal r else digitsVal s)"

definition addTransaction :: "int \<Rightarrow> string \<Rightarrow> entry \<Rightarrow> ExpenseTracker \<Rightarrow> ExpenseTracker" where
  "addTransaction now stamp e st =
     st\<lparr>transactions := newTransaction (toString now) stamp e # transactions st\<rparr>"

text \<open>
  \<open>deleteTransaction\<close> and \<open>clearAllTransactions\<close> first ask \<open>confirm(...)\<close>; the answer
  is the argument \<open>ok\<close>. \<open>i\<close> is the id the caller passes, a string like the stored ids,
  so that \<open>!==\<close> is inequality of strings.
\<close>

definition deleteTransaction :: "bool \<Rightarrow> string \<Rightarrow> ExpenseTracker \<Rightarrow> ExpenseTracker" where
  "deleteTransaction ok i st =
     (if ok then st\<lparr>transactions := filter (\<lambda>t. id_tx t \<noteq> i) (transactions st)\<rparr> else st)"

definition clearAllTransactions :: "bool \<Rightarrow> ExpenseTracker \<Rightarrow> ExpenseTracker" where
  "clearAllTransactions ok st = (if ok then st\<lparr>transactions := []\<rparr> else st)"

text \<open>A run of \<open>addTransaction\<close> calls, first call first; each call brings its clock readings.\<close>

fun addCalls :: "(int \<times> string \<times> entry) list \<Rightarrow> ExpenseTracker \<Rightarrow> ExpenseTracker" where
  "addCalls [] st = st"
| "addCalls ((now, stamp, e) # cs) st = addCalls cs (addTransaction now stamp e st)"

section \<open>Filtering and aggregation\<close>

definition getFilteredTransactions :: "ExpenseTracker \<Rightarrow> transaction list" where
  "getFilteredTransactions st =
     filter (\<lambda>t.
        let typeMatch = (ftype (filters st) = ''all'' \<or> type_tx t = ftype (filters st));
            categoryMatch = (fcategory (filters st) = ''all'' \<or> category t = fcategory (filters st))
        in typeMatch \<and> categoryMatch)
       (transactions st)"

text \<open>\<open>xs.reduce((sum, t) => sum + parseFloat(t.amount), 0)\<close>.\<close>

definition reduceAmounts :: "transaction list \<Rightarrow> jsnum" where
  "reduceAmounts xs = foldl (\<lambda>sum t. jsadd sum (parseFloatNum (amount t))) (Fin 0) xs"

definition calculateTotals :: "ExpenseTracker \<Rightarrow> totals" where
  "calculateTotals st =
     (let filteredTransactions = getFilteredTransactions st;
          inc = reduceAmounts (filter (\<lambda>t. type_tx t = ''income'') filteredTransactions);
          exp = reduceAmounts (filter (\<lambda>t. type_tx t = ''expense'') filteredTransactions)
      in \<lparr>income = inc, expenses = exp, balance = jssub inc exp\<rparr>)"

text \<open>
  \<open>calculateMonthlyStats\<close>: \<open>monthLabel\<close> stands for the host's
  \<open>new Date(d).toLocaleDateString('en-US', {year: 'numeric', month: 'long'})\<close>, which
  depends on the time zone of the host.
\<close>

definition calculateMonthlyStats :: "(string \<Rightarrow> string) \<Rightarrow> string \<Rightarrow> ExpenseTracker \<Rightarrow> monthly" where
  "calculateMonthlyStats monthLabel m st =
     (let filtered = (if m \<noteq> ''all''
                      then filter (\<lambda>t. monthLabel (date t) = m) (transactions st)
                      else transactions st);
          inc = reduceAmounts (filter (\<lambda>t. type_tx t = ''income'') filtered);
          exp = reduceAmounts (filter (\<lambda>t. type_tx t = ''expense'') filtered)
      in \<lparr>income = inc, expenses = exp, count = length filtered, net = jssub inc exp\<rparr>)"

text \<open>The filter state that the constructor installs.\<close>

definition initialFilters :: filters where
  "initialFilters = \<lparr>ftype = ''all'', fcategory = ''all'', fmonth = ''all''\<rparr>"

section \<open>Form submission\<close>

text \<open>
  \<open>handleFormSubmit\<close> reads the values of the five form elements. Its result is the list
  of \<open>showError\<close> calls it made, in order, and the tracker afterwards. Each of \<open>!title\<close>,
  \<open>!amount\<close>, ... is true for the empty string only. What follows the call of
  \<open>addTransaction\<close> resets the form and, half a second later, switches the view; it
  touches neither the ledger nor the filters.
\<close>

record form =
  titleValue :: string
  amountValue :: string
  typeValue :: string
  categoryValue :: string
  dateValue :: string

definition handleFormSubmit ::
  "int \<Rightarrow> string \<Rightarrow> form \<Rightarrow> ExpenseTracker \<Rightarrow> (string \<times> string) list \<times> ExpenseTracker" where
  "handleFormSubmit now stamp frm st =
     (let title1 = trim (titleValue frm);
          amount1 = amountValue frm;
          type1 = typeValue frm;
          category1 = categoryValue frm;
          date1 = dateValue frm;
          titleBad = (title1 = []);
          amountBad = (amount1 = [] \<or> jsle (parseFloat amount1) (Fin 0));
          typeBad = (type1 = []);
          categoryBad = (category1 = []);
          dateBad = (date1 = []);
          shown =
            (if titleBad then [(''titleError'', ''Title is required'')] else []) @
            (if amountBad then [(''amountError'', ''Please enter a valid amount'')] else []) @
            (if typeBad then [(''typeError'', ''Please select a type'')] else []) @
            (if categoryBad then [(''categoryError'', ''Please select a category'')] else []) @
            (if dateBad then [(''dateError'', ''Date is required'')] else []);
          isValid = (\<not> titleBad \<and> \<not> amountBad \<and> \<not> typeBad \<and> \<not> categoryBad \<and> \<not> dateBad)
      in if \<not> isValid then (shown, st)
         else (shown,
               addTransaction now stamp
                 \<lparr>title = title1, amount = parseFloat amount1, type_tx = type1,
                  category = category1, date = date1\<rparr> st))"

section \<open>Loading the stored ledger\<close>

text \<open>
  \<open>JSON.parse\<close>, after the JSON grammar: the text is cut into tokens, and the tokens are
  read with a stack of the arrays and objects that are still open. A string value is a
  list of code units, since \<open>\u\<close> escapes reach beyond 255. An object is the list of its
  members in the order of their first occurrence; a repeated key replaces the value.
\<close>

datatype json =
    JNull
  | JBool bool
  | JNumber jsnum
  | JString "nat list"
  | JArray "json list"
  | JObject "(nat list \<times> json) list"

datatype jserror = SyntaxError

datatype token = LBracket | RBracket | LBrace | RBrace | Comma | Colon | Scalar json

definition hexVal :: "char \<Rightarrow> nat option" where
  "hexVal c =
     (if isDigit c then Some (of_char c - 48)
      else if c \<in> set ''abcdef'' then Some (of_char c - 87)
      else if c \<in> set ''ABCDEF'' then Some (of_char c - 55)
      else None)"

definition escapeChar :: "char \<Rightarrow> nat option" where
  "escapeChar e =
     (if e = CHR 0x22 then Some 0x22
      else if e = CHR 0x5C then Some 0x5C
      else if e = CHR ''/'' then Some 0x2F
      else if e = CHR ''b'' then Some 0x08
      else if e = CHR ''f'' then Some 0x0C
      else if e = CHR ''n'' then Some 0x0A
      else if e = CHR ''r'' then Some 0x0D
      else if e = CHR ''t'' then Some 0x09
      else None)"

definition unsignedPart :: "string \<Rightarrow> string" where
  "unsignedPart s =
     (case s of [] \<Rightarrow> [] | c # r \<Rightarrow> if c = CHR ''+'' \<or> c = CHR ''-'' then r else s)"

text \<open>
  A JSON number: an optional minus, an integer part without a leading zero, an optional
  fraction with at least one digit, an optional exponent; nothing may follow.
\<close>

definition jsonNumber :: "string \<Rightarrow> jsnum option" where
  "jsonNumber s =
     (let neg = (take 1 s = ''-'');
          u = (if neg then drop 1 s else s);
          ip = takeWhile isDigit u;
          r1 = dropWhile isDigit u;
          hasFrac = (take 1 r1 = ''.'');
          fp = (if hasFrac then takeWhile isDigit (drop 1 r1) else []);
          r2 = (if hasFrac then dropWhile isDigit (drop 1 r1) else r1);
          hasExp = (take 1 r2 = ''e'' \<or> take 1 r2 = ''E'');
          ex = (if hasExp then signedDigits (drop 1 r2) else 0);
          r3 = (if hasExp then dropWhile isDigit (unsignedPart (drop 1 r2)) else r2);
          m = scale10 (of_int (digitsVal ip) + of_int (digitsVal fp) / 10 ^ length fp) ex
      in if ip = [] \<or> (take 1 ip = ''0'' \<and> length ip > 1) then None
         else if hasFrac \<and> fp = [] then None
         else if hasExp \<and> \<not> hasSignedDigits (drop 1 r2) then None
         else if r3 \<noteq> [] then None
         else Some (round64 (if neg then - m else m)))"

definition isNumberChar :: "char \<Rightarrow> bool" where
  "isNumberChar c = (isDigit c \<or> c \<in> set ''+-.eE'')"

definition isLetter :: "char \<Rightarrow> bool" where
  "isLetter c = (c \<in> set ''abcdefghijklmnopqrstuvwxyz'')"

definition jsonLiteral :: "string \<Rightarrow> json option" where
  "jsonLiteral w =
     (if w = ''null'' then Some JNull
      else if w = ''true'' then Some (JBool True)
      else if w = ''false'' then Some (JBool False)
      else None)"

definition consToken :: "token \<Rightarrow> token list option \<Rightarrow> token list option" where
  "consToken t res = (case res of None \<Rightarrow> None | Some ts \<Rightarrow> Some (t # ts))"

text \<open>
  The tokens of a text, \<open>None\<close> when some piece of it is no token. A number or a literal
  name is the whole run of number characters or letters that starts there: in a valid
  text nothing of that kind follows a number or a name directly. \<open>jsonStringTail\<close> reads a
  string after its opening quote, \<open>us\<close> being the code units read so far.
\<close>

function jsonTokens :: "string \<Rightarrow> token list option"
  and jsonStringTail :: "nat list \<Rightarrow> string \<Rightarrow> token list option" where
  "jsonTokens [] = Some []"
| "jsonTokens (c # r) =
     (if c \<in> set [CHR 0x20, CHR 0x09, CHR 0x0A, CHR 0x0D] then jsonTokens r
      else if c = CHR 0x5B then consToken LBracket (jsonTokens r)
      else if c = CHR 0x5D then consToken RBracket (jsonTokens r)
      else if c = CHR 0x7B then consToken LBrace (jsonTokens r)
      else if c = CHR 0x7D then consToken RBrace (jsonTokens r)
      else if c = CHR '','' then consToken Comma (jsonTokens r)
      else if c = CHR '':'' then consToken Colon (jsonTokens r)
      else if c = CHR 0x22 then jsonStringTail [] r
      else if isNumberChar c then
        (case jsonNumber (c # takeWhile isNumberChar r) of
           None \<Rightarrow> None
         | Some v \<Rightarrow> consToken (Scalar (JNumber v)) (jsonTokens (dropWhile isNumberChar r)))
      else if isLetter c then
        (case jsonLiteral (c # takeWhile isLetter r) of
           None \<Rightarrow> None
         | Some v \<Rightarrow> consToken (Scalar v) (jsonTokens (dropWhile isLetter r)))
      else None)"
| "jsonStringTail us [] = None"
| "jsonStringTail us (c # r) =
     (if c = CHR 0x22 then consToken (Scalar (JString us)) (jsonTokens r)
      else if c = CHR 0x5C then
        (case r of
           [] \<Rightarrow> None
         | e # r1 \<Rightarrow>
             if e = CHR ''u'' then
               (case r1 of
                  h1 # h2 # h3 # h4 # r2 \<Rightarrow>
                    (case (hexVal h1, hexVal h2, hexVal h3, hexVal h4) of
                       (Some d1, Some d2, Some d3, Some d4) \<Rightarrow>
                         jsonStringTail (us @ [((d1 * 16 + d2) * 16 + d3) * 16 + d4]) r2
                     | _ \<Rightarrow> None)
                | _ \<Rightarrow> None)
             else
               (case escapeChar e of
                  None \<Rightarrow> None
                | Some u \<Rightarrow> jsonStringTail (us @ [u]) r1))
      else if of_char c < (0x20 :: nat) then None
      else jsonStringTail (us @ [of_char c]) r)"
  by pat_completeness auto
termination
  by (relation "measure (\<lambda>x. case x of Inl s \<Rightarrow> length s | Inr (us, s) \<Rightarrow> length s)")
     (auto simp add: length_dropWhile_le le_imp_less_Suc)

fun setMember :: "nat list \<Rightarrow> json \<Rightarrow> (nat list \<times> json) list \<Rightarrow> (nat list \<times> json) list" where
  "setMember k v [] = [(k, v)]"
| "setMember k v (p # ps) = (if fst p = k then (k, v) # ps else p # setMember k v ps)"

text \<open>
  The arrays and objects still open: an array with the elements read so far, an object
  with the members read so far and the key whose value is being read.
\<close>

datatype frame = ArrayFrame "json list" | ObjectFrame "(nat list \<times> json) list" "nat list"

fun expectValue :: "frame list \<Rightarrow> token list \<Rightarrow> json option"
  and afterValue :: "json \<Rightarrow> frame list \<Rightarrow> token list \<Rightarrow> json option" where
  "expectValue stk [] = None"
| "expectValue stk (Scalar v # ts) = afterValue v stk ts"
| "expectValue stk (LBracket # ts) =
     (case ts of
        RBracket # ts1 \<Rightarrow> afterValue (JArray []) stk ts1
      | _ \<Rightarrow> expectValue (ArrayFrame [] # stk) ts)"
| "expectValue stk (LBrace # ts) =
     (case ts of
        RBrace # ts1 \<Rightarrow> afterValue (JObject []) stk ts1
      | Scalar (JString k) # Colon # ts1 \<Rightarrow> expectValue (ObjectFrame [] k # stk) ts1
      | _ \<Rightarrow> None)"
| "expectValue stk (t # ts) = None"
| "afterValue v [] ts = (if ts = [] then Some v else None)"
| "afterValue v (ArrayFrame acc # stk) ts =
     (case ts of
        Comma # ts1 \<Rightarrow> expectValue (ArrayFrame (acc @ [v]) # stk) ts1
      | RBracket # ts1 \<Rightarrow> afterValue (JArray (acc @ [v])) stk ts1
      | _ \<Rightarrow> None)"
| "afterValue v (ObjectFrame ms k # stk) ts =
     (case ts of
        Comma # Scalar (JString k1) # Colon # ts1 \<Rightarrow>
          expectValue (ObjectFrame (setMember k v ms) k1 # stk) ts1
      | RBrace # ts1 \<Rightarrow> afterValue (JObject (setMember k v ms)) stk ts1
      | _ \<Rightarrow> None)"

definition JSON_parse :: "string \<Rightarrow> jserror + json" where
  "JSON_parse text =
     (case jsonTokens text of
        None \<Rightarrow> Inl SyntaxError
      | Some ts \<Rightarrow>
          (case expectValue [] ts of
             None \<Rightarrow> Inl SyntaxError
           | Some v \<Rightarrow> Inr v))"

text \<open>
  \<open>loadTransactions\<close>: \<open>localStorage.getItem\<close> gives \<open>null\<close> for a missing key; \<open>null\<close>
  and the empty string are the falsy values of \<open>data\<close>. An exception of \<open>JSON.parse\<close> is
  not caught and leaves \<open>loadTransactions\<close> as it is (\<open>Inl\<close>).
\<close>

definition loadTransactions :: "(string \<rightharpoonup> string) \<Rightarrow> jserror + json" where
  "loadTransactions localStorage =
     (let data = localStorage ''transactions''
      in case data of
           None \<Rightarrow> Inr (JArray [])
         | Some text \<Rightarrow> if text \<noteq> [] then JSON_parse text else Inr (JArray []))"

section \<open>The specification's vocabulary\<close>

text \<open>
  The filter rule in the specification's words: a transaction is kept iff the type
  selector is "all" or equals its type, and the category selector is "all" or equals its
  category.
\<close>

definition keeps :: "filters \<Rightarrow> transaction \<Rightarrow> bool" where
  "keeps f t =
     ((ftype f = ''all'' \<or> type_tx t = ftype f) \<and>
      (fcategory f = ''all'' \<or> category t = fcategory f))"

text \<open>The sum of a sequence of amounts, taken from zero in the order of the sequence.\<close>

definition sumOf :: "jsnum list \<Rightarrow> jsnum" where
  "sumOf xs = foldl jsadd (Fin 0) xs"

section \<open>Example data\<close>

text \<open>Two transactions, a form whose amount field is left open, and an empty tracker.\<close>

definition pay100 :: transaction where
  "pay100 =
     \<lparr>title = ''Pay'', amount = Fin 100, type_tx = ''income'', category = ''salary'',
      date = ''2024-03-01'', id_tx = ''1709287200000'', timestamp = ''2024-03-01T10:00:00.000Z''\<rparr>"

definition lunch40 :: transaction where
  "lunch40 =
     \<lparr>title = ''Lunch'', amount = Fin 40, type_tx = ''expense'', category = ''food'',
      date = ''2024-03-02'', id_tx = ''1709373600000'', timestamp = ''2024-03-02T10:00:00.000Z''\<rparr>"

definition giftForm :: "string \<Rightarrow> form" where
  "giftForm a =
     \<lparr>titleValue = ''Gift'', amountValue = a, typeValue = ''income'', categoryValue = ''other'',
      dateValue = ''2024-03-03''\<rparr>"

definition emptyTracker :: ExpenseTracker where
  "emptyTracker = \<lparr>transactions = [], filters = initialFilters\<rparr>"

section \<open>The number model on examples\<close>

text \<open>
  The decimal 0.1 is read as the binary64 value next to it, 0.1 + 0.2 is the value that
  prints as 0.30000000000000004, \<open>2^53 + 1\<close> is a tie and goes to the even neighbour,
  and small integers are exact.
\<close>

lemma round64_examples:
  "parseFloat ''0.1'' = Fin (3602879701896397 / 36028797018963968)"
  "jsadd (parseFloat ''0.1'') (parseFloat ''0.2'') = Fin (5404319552844596 / 18014398509481984)"
  "round64 9007199254740993 = Fin 9007199254740992"
  "jssub (Fin 100) (Fin 40) = Fin 60"
  by code_simp+

section \<open>Properties of aggregation and filtering\<close>

lemma reduceAmounts_sumOf: "reduceAmounts xs = sumOf (map amount xs)"
  by (simp add: reduceAmounts_def sumOf_def parseFloatNum_def foldl_map)

lemma getFiltered_keeps:
  "getFilteredTransactions st = filter (keeps (filters st)) (transactions st)"
  by (simp add: getFilteredTransactions_def keeps_def [abs_def] Let_def)

text \<open>
  C1, as amended. \<open>calculateTotals\<close> sums over the filtered view: its income is the sum of
  the amounts of the transactions that the type and category selectors keep and whose
  type is income, its expenses likewise for type expense, and its balance is income minus
  expenses. When both selectors are "all" the sums run over the whole ledger; on an empty
  ledger all three are zero.
\<close>

theorem totals_over_filtered_view:
  "income (calculateTotals st) =
     sumOf (map amount [t \<leftarrow> transactions st. keeps (filters st) t \<and> type_tx t = ''income'']) \<and>
   expenses (calculateTotals st) =
     sumOf (map amount [t \<leftarrow> transactions st. keeps (filters st) t \<and> type_tx t = ''expense'']) \<and>
   balance (calculateTotals st) = jssub (income (calculateTotals st)) (expenses (calculateTotals st)) \<and>
   (ftype (filters st) = ''all'' \<and> fcategory (filters st) = ''all'' \<longrightarrow>
      income (calculateTotals st) =
        sumOf (map amount [t \<leftarrow> transactions st. type_tx t = ''income'']) \<and>
      expenses (calculateTotals st) =
        sumOf (map amount [t \<leftarrow> transactions st. type_tx t = ''expense''])) \<and>
   (transactions st = [] \<longrightarrow>
      calculateTotals st = \<lparr>income = Fin 0, expenses = Fin 0, balance = Fin 0\<rparr>)"
proof -
  have inc: "income (calculateTotals st) =
      sumOf (map amount [t \<leftarrow> transactions st. keeps (filters st) t \<and> type_tx t = ''income''])"
    by (simp add: calculateTotals_def getFiltered_keeps reduceAmounts_sumOf Let_def conj_commute)
  have exp: "expenses (calculateTotals st) =
      sumOf (map amount [t \<leftarrow> transactions st. keeps (filters st) t \<and> type_tx t = ''expense''])"
    by (simp add: calculateTotals_def getFiltered_keeps reduceAmounts_sumOf Let_def conj_commute)
  have bal: "balance (calculateTotals st) =
      jssub (income (calculateTotals st)) (expenses (calculateTotals st))"
    by (simp add: calculateTotals_def Let_def)
  have all: "keeps (filters st) = (\<lambda>t. True)"
    if "ftype (filters st) = ''all''" and "fcategory (filters st) = ''all''"
    using that by (simp add: keeps_def [abs_def])
  have empty: "calculateTotals st = \<lparr>income = Fin 0, expenses = Fin 0, balance = Fin 0\<rparr>"
    if "transactions st = []"
    using that
    by (simp add: calculateTotals_def getFilteredTransactions_def reduceAmounts_def
        jssub_def round64_def Let_def)
  from inc exp bal all empty show ?thesis
    by simp
qed

text \<open>
  The two-element example under the initial filters: income 100, expenses 40, balance 60.
\<close>

theorem totals_over_filtered_view_witness:
  "calculateTotals \<lparr>transactions = [pay100, lunch40], filters = initialFilters\<rparr> =
     \<lparr>income = Fin 100, expenses = Fin 40, balance = Fin 60\<rparr>"
proof -
  have "sumOf [Fin 100] = Fin 100" "sumOf [Fin 40] = Fin 40" "jssub (Fin 100) (Fin 40) = Fin 60"
    by code_simp+
  then show ?thesis
    using totals_over_filtered_view
      [of "\<lparr>transactions = [pay100, lunch40], filters = initialFilters\<rparr>"]
    by (simp add: initialFilters_def pay100_def lunch40_def keeps_def)
qed

text \<open>
  The same ledger with the type selector on "expense": the income shown is 0, although
  the ledger holds an income transaction of 100.
\<close>

theorem totals_ignore_filtered_out_income:
  "calculateTotals
     \<lparr>transactions = [pay100, lunch40],
      filters = \<lparr>ftype = ''expense'', fcategory = ''all'', fmonth = ''all''\<rparr>\<rparr> =
     \<lparr>income = Fin 0, expenses = Fin 40, balance = Fin (- 40)\<rparr> \<and>
   type_tx pay100 = ''income'' \<and> amount pay100 = Fin 100"
proof -
  have "jsadd (Fin 0) (Fin 40) = Fin 40" "jssub (Fin 0) (Fin 40) = Fin (- 40)"
    by code_simp+
  then show ?thesis
    by (simp add: calculateTotals_def getFilteredTransactions_def reduceAmounts_def
        parseFloatNum_def pay100_def lunch40_def Let_def)
qed

text \<open>
  C3. For every ledger and every filter state, \<open>calculateMonthlyStats\<close> with month "all"
  counts the whole ledger, and its income, expenses and net are the income, expenses and
  balance that \<open>calculateTotals\<close> gives over the unfiltered ledger, that is, with the type
  and category selectors on "all".
\<close>

theorem monthly_all_agrees_with_totals:
  "count (calculateMonthlyStats monthLabel ''all'' st) = length (transactions st) \<and>
   income (calculateMonthlyStats monthLabel ''all'' st) =
     income (calculateTotals
       (st\<lparr>filters := \<lparr>ftype = ''all'', fcategory = ''all'', fmonth = m\<rparr>\<rparr>)) \<and>
   expenses (calculateMonthlyStats monthLabel ''all'' st) =
     expenses (calculateTotals
       (st\<lparr>filters := \<lparr>ftype = ''all'', fcategory = ''all'', fmonth = m\<rparr>\<rparr>)) \<and>
   net (calculateMonthlyStats monthLabel ''all'' st) =
     balance (calculateTotals
       (st\<lparr>filters := \<lparr>ftype = ''all'', fcategory = ''all'', fmonth = m\<rparr>\<rparr>))"
  by (simp add: calculateMonthlyStats_def calculateTotals_def getFilteredTransactions_def Let_def)

text \<open>
  C6. The filtered view is the ledger filtered by the rule \<open>keeps\<close>: a transaction is in
  it iff its type and its category pass the two selectors, and the kept transactions
  stand in their ledger order. The month selector has no effect on it.
\<close>

theorem filtered_view_by_type_and_category:
  "getFilteredTransactions st = filter (keeps (filters st)) (transactions st) \<and>
   subseq (getFilteredTransactions st) (transactions st) \<and>
   getFilteredTransactions (st\<lparr>filters := (filters st)\<lparr>fmonth := m\<rparr>\<rparr>) =
     getFilteredTransactions st"
  by (simp add: getFilteredTransactions_def keeps_def [abs_def] Let_def)

section \<open>Properties of insertion and deletion\<close>

lemma addCalls_transactions:
  "transactions (addCalls cs st) =
     rev (map (\<lambda>(now, stamp, e). newTransaction (toString now) stamp e) cs) @ transactions st"
  by (induction cs st rule: addCalls.induct)
     (simp_all add: addTransaction_def)

lemma map_date_new:
  "map date (map (\<lambda>(now, stamp, e). newTransaction (toString now) stamp e) cs) =
     map (\<lambda>(now, stamp, e). date e) cs"
  by (induction cs) (auto simp add: newTransaction_def)

text \<open>
  C7. \<open>addTransaction\<close> puts the new transaction in front of the ledger and leaves the
  others as they were, whatever its date; after a run of calls the ledger starts with
  the new transactions, last call first, so its dates are the dates of the calls in
  reverse call order, not in calendar order.
\<close>

theorem add_inserts_at_front:
  "transactions (addTransaction now stamp e st) =
     newTransaction (toString now) stamp e # transactions st \<and>
   date (hd (transactions (addTransaction now stamp e st))) = date e \<and>
   transactions (addCalls cs st) =
     rev (map (\<lambda>(now, stamp, e). newTransaction (toString now) stamp e) cs) @ transactions st \<and>
   map date (transactions (addCalls cs st)) =
     rev (map (\<lambda>(now, stamp, e). date e) cs) @ map date (transactions st)"
proof -
  have "map date (transactions (addCalls cs st)) =
          map date (rev (map (\<lambda>(now, stamp, e). newTransaction (toString now) stamp e) cs))
            @ map date (transactions st)"
    by (simp only: addCalls_transactions map_append)
  also have "map date (rev (map (\<lambda>(now, stamp, e). newTransaction (toString now) stamp e) cs)) =
          rev (map (\<lambda>(now, stamp, e). date e) cs)"
    by (simp only: rev_map [symmetric] map_date_new)
  finally have dates: "map date (transactions (addCalls cs st)) =
     rev (map (\<lambda>(now, stamp, e). date e) cs) @ map date (transactions st)" .
  have one: "transactions (addTransaction now stamp e st) =
     newTransaction (toString now) stamp e # transactions st"
    by (simp add: addTransaction_def)
  have "date (newTransaction (toString now) stamp e) = date e"
    by (simp add: newTransaction_def)
  with one dates addCalls_transactions [of cs st] show ?thesis
    by simp
qed

text \<open>
  C8. \<open>deleteTransaction\<close> with an id that no transaction of the ledger has leaves the
  tracker as it was, whatever the user answers to the confirmation. Deleting twice, or
  clearing twice, gives what doing it once gives, and on an empty ledger both change
  nothing. Neither function has a failing branch: the source filters an array and
  assigns an array, and throws nowhere.
\<close>

theorem delete_absent_id_unchanged:
  "(i \<notin> id_tx ` set (transactions st) \<longrightarrow> deleteTransaction ok i st = st) \<and>
   deleteTransaction ok i (deleteTransaction ok i st) = deleteTransaction ok i st \<and>
   clearAllTransactions ok (clearAllTransactions ok st) = clearAllTransactions ok st \<and>
   (transactions st = [] \<longrightarrow> deleteTransaction ok i st = st \<and> clearAllTransactions ok st = st)"
proof -
  have "filter (\<lambda>t. id_tx t \<noteq> i) (transactions st) = transactions st"
    if "i \<notin> id_tx ` set (transactions st)"
    using that by (simp add: filter_id_conv) blast
  then show ?thesis
    by (simp add: deleteTransaction_def clearAllTransactions_def)
qed

theorem delete_absent_id_unchanged_witness:
  "deleteTransaction True ''42'' \<lparr>transactions = [pay100, lunch40], filters = initialFilters\<rparr> =
     \<lparr>transactions = [pay100, lunch40], filters = initialFilters\<rparr> \<and>
   deleteTransaction True ''42'' emptyTracker = emptyTracker \<and>
   clearAllTransactions True emptyTracker = emptyTracker"
proof -
  have "''42'' \<notin> id_tx ` set (transactions \<lparr>transactions = [pay100, lunch40], filters = initialFilters\<rparr>)"
    by (simp add: pay100_def lunch40_def)
  moreover have "transactions emptyTracker = []"
    by (simp add: emptyTracker_def)
  ultimately show ?thesis
    using delete_absent_id_unchanged
        [of "''42''" "\<lparr>transactions = [pay100, lunch40], filters = initialFilters\<rparr>" True]
      delete_absent_id_unchanged [of "''42''" emptyTracker True]
    by simp
qed

text \<open>
  C9. Once confirmed, \<open>deleteTransaction\<close> removes every transaction that has the given
  id, however many there are, and keeps all the others in their order; the filter state
  is untouched. When the user declines, nothing changes.
\<close>

theorem delete_removes_every_match:
  "transactions (deleteTransaction True i st) = filter (\<lambda>t. id_tx t \<noteq> i) (transactions st) \<and>
   i \<notin> id_tx ` set (transactions (deleteTransaction True i st)) \<and>
   filter (\<lambda>t. id_tx t \<noteq> i) (transactions (deleteTransaction True i st)) =
     filter (\<lambda>t. id_tx t \<noteq> i) (transactions st) \<and>
   filters (deleteTransaction True i st) = filters st \<and>
   deleteTransaction False i st = st"
  by (auto simp add: deleteTransaction_def)

subsection \<open>Ids\<close>

lemma digitVal_digitChar: "0 \<le> d \<Longrightarrow> d < 10 \<Longrightarrow> digitVal (digitChar d) = d"
proof -
  have "list_all (\<lambda>d. digitVal (digitChar d) = d) [0..9]"
    by code_simp
  then show "0 \<le> d \<Longrightarrow> d < 10 \<Longrightarrow> digitVal (digitChar d) = d"
    by (simp add: list_all_iff)
qed

lemma digitChar_not_minus: "0 \<le> d \<Longrightarrow> d < 10 \<Longrightarrow> digitChar d \<noteq> CHR ''-''"
proof -
  have "list_all (\<lambda>d. digitChar d \<noteq> CHR ''-'') [0..9]"
    by code_simp
  then show "0 \<le> d \<Longrightarrow> d < 10 \<Longrightarrow> digitChar d \<noteq> CHR ''-''"
    by (simp add: list_all_iff)
qed

lemma digitsVal_snoc: "digitsVal (ds @ [c]) = 10 * digitsVal ds + digitVal c"
  by (simp add: digitsVal_def)

text \<open>Reading the decimal text of a clock value gives the value back.\<close>

lemma digitsVal_toString: "0 \<le> n \<Longrightarrow> digitsVal (toString n) = n"
proof (induction n rule: toString.induct)
  case (1 n)
  show ?case
  proof (cases "n < 10")
    case True
    with 1(3) show ?thesis
      by (subst toString.simps) (simp add: digitsVal_def digitVal_digitChar)
  next
    case False
    with 1 have "digitsVal (toString (n div 10)) = n div 10"
      by simp
    with False 1(3) show ?thesis
      by (subst toString.simps) (simp add: digitsVal_snoc digitVal_digitChar)
  qed
qed

lemma toString_starts_with_digit:
  "0 \<le> n \<Longrightarrow> toString n \<noteq> [] \<and> hd (toString n) \<noteq> CHR ''-''"
proof (induction n rule: toString.induct)
  case (1 n)
  show ?case
  proof (cases "n < 10")
    case True
    with 1(3) show ?thesis
      by (subst (1 2) toString.simps) (simp add: digitChar_not_minus)
  next
    case False
    with 1 have "toString (n div 10) \<noteq> [] \<and> hd (toString (n div 10)) \<noteq> CHR ''-''"
      by simp
    with False 1(3) show ?thesis
      by (subst (1 2) toString.simps) simp
  qed
qed

lemma readInt_toString: "readInt (toString n) = n"
proof (cases "n < 0")
  case True
  then have "toString n = CHR ''-'' # toString (- n)"
    by (subst toString.simps) simp
  with True show ?thesis
    by (simp add: readInt_def digitsVal_toString)
next
  case False
  with toString_starts_with_digit [of n] digitsVal_toString [of n] show ?thesis
    by (cases "toString n") (simp_all add: readInt_def)
qed

lemma toString_inj: "toString m = toString n \<Longrightarrow> m = n"
  by (metis readInt_toString)

text \<open>
  C2, at the failing input. Two \<open>addTransaction\<close> calls that read the same clock value
  give their transactions the same id: the two ids in front of the ledger are both the
  text of that value, so the ids of the ledger are not distinct.
\<close>

theorem same_instant_same_id:
  "map id_tx (transactions (addTransaction now s2 e2 (addTransaction now s1 e1 st))) =
     toString now # toString now # map id_tx (transactions st) \<and>
   \<not> distinct (map id_tx (transactions (addTransaction now s2 e2 (addTransaction now s1 e1 st))))"
proof -
  have "transactions (addTransaction now s2 e2 (addTransaction now s1 e1 st)) =
      newTransaction (toString now) s2 e2 # newTransaction (toString now) s1 e1 # transactions st"
    by (simp add: addTransaction_def)
  moreover have "id_tx (newTransaction (toString now) s e) = toString now" for s e
    by (simp add: newTransaction_def)
  ultimately show ?thesis
    by simp
qed

section \<open>Properties of form submission\<close>

lemma parseFloat_abc: "parseFloat ''abc'' = NaN"
  by code_simp

lemma trim_Gift: "trim ''Gift'' = ''Gift''"
  by code_simp

lemma toString_example: "toString 1709460000000 = ''1709460000000''"
  by (simp add: toString.simps digitChar_def)

text \<open>
  C5, at the failing inputs. With every other field filled in, the amounts "0" and "-5"
  are rejected and leave the tracker as it was, and "0.01" is accepted, as the binary64
  value nearest to it. But "Infinity" and "abc" are accepted as well: a transaction whose
  amount is infinite, or is not a number, enters the ledger.
\<close>

theorem form_accepts_non_finite_amounts:
  "snd (handleFormSubmit now stamp (giftForm ''0'') emptyTracker) = emptyTracker \<and>
   snd (handleFormSubmit now stamp (giftForm ''-5'') emptyTracker) = emptyTracker \<and>
   map amount (transactions (snd (handleFormSubmit now stamp (giftForm ''0.01'') emptyTracker))) =
     [Fin (5764607523034235 / 576460752303423488)] \<and>
   map amount (transactions (snd (handleFormSubmit now stamp (giftForm ''Infinity'') emptyTracker))) =
     [PosInf] \<and>
   map amount (transactions (snd (handleFormSubmit now stamp (giftForm ''abc'') emptyTracker))) =
     [NaN]"
proof -
  have "parseFloat ''0'' = Fin 0" "parseFloat ''-5'' = Fin (- 5)"
    "parseFloat ''0.01'' = Fin (5764607523034235 / 576460752303423488)"
    "parseFloat ''Infinity'' = PosInf"
    "parseFloat ''abc'' = NaN"
    by code_simp+
  then show ?thesis
    by (simp add: handleFormSubmit_def giftForm_def Let_def trim_Gift addTransaction_def
        newTransaction_def emptyTracker_def)
qed

text \<open>
  C10. The amount error is shown iff the amount field is empty or \<open>parseFloat\<close> of it is
  at most 0, and then nothing is added; when the other four fields pass their checks,
  the submission is rejected iff the amount is. A non-empty amount that \<open>parseFloat\<close> reads as
  \<open>NaN\<close> raises no amount error; when the other four fields pass their checks
  (a title that is not blank, a type, a category and a date), the submission is accepted
  and the transaction put in front of the ledger has the amount \<open>NaN\<close>.
\<close>

theorem amount_check_lets_nan_through:
  "((''amountError'', ''Please enter a valid amount'') \<in> set (fst (handleFormSubmit now stamp frm st))
      \<longleftrightarrow> amountValue frm = [] \<or> jsle (parseFloat (amountValue frm)) (Fin 0)) \<and>
   (amountValue frm = [] \<or> jsle (parseFloat (amountValue frm)) (Fin 0) \<longrightarrow>
      snd (handleFormSubmit now stamp frm st) = st) \<and>
   (trim (titleValue frm) \<noteq> [] \<and> typeValue frm \<noteq> [] \<and> categoryValue frm \<noteq> [] \<and>
    dateValue frm \<noteq> [] \<longrightarrow>
      (fst (handleFormSubmit now stamp frm st) \<noteq> [] \<longleftrightarrow>
         amountValue frm = [] \<or> jsle (parseFloat (amountValue frm)) (Fin 0))) \<and>
   (amountValue frm \<noteq> [] \<and> parseFloat (amountValue frm) = NaN \<longrightarrow>
      (''amountError'', ''Please enter a valid amount'') \<notin> set (fst (handleFormSubmit now stamp frm st))) \<and>
   (amountValue frm \<noteq> [] \<and> parseFloat (amountValue frm) = NaN \<and>
    trim (titleValue frm) \<noteq> [] \<and> typeValue frm \<noteq> [] \<and> categoryValue frm \<noteq> [] \<and>
    dateValue frm \<noteq> [] \<longrightarrow>
      handleFormSubmit now stamp frm st =
        ([], addTransaction now stamp
               \<lparr>title = trim (titleValue frm), amount = NaN, type_tx = typeValue frm,
                category = categoryValue frm, date = dateValue frm\<rparr> st) \<and>
      amount (hd (transactions (snd (handleFormSubmit now stamp frm st)))) = NaN)"
  by (auto simp add: handleFormSubmit_def Let_def addTransaction_def newTransaction_def
     )

theorem amount_check_lets_nan_through_witness:
  "handleFormSubmit 1709460000000 ''2024-03-03T10:00:00.000Z'' (giftForm ''abc'') emptyTracker =
     ([], \<lparr>transactions =
            [\<lparr>title = ''Gift'', amount = NaN, type_tx = ''income'', category = ''other'',
              date = ''2024-03-03'', id_tx = ''1709460000000'',
              timestamp = ''2024-03-03T10:00:00.000Z''\<rparr>],
          filters = initialFilters\<rparr>)"
  using amount_check_lets_nan_through
      [of 1709460000000 "''2024-03-03T10:00:00.000Z''" "giftForm ''abc''" emptyTracker]
    parseFloat_abc trim_Gift toString_example
  by (simp add: giftForm_def addTransaction_def newTransaction_def emptyTracker_def
     )

section \<open>Properties of loading\<close>

text \<open>
  C4, as amended. \<open>loadTransactions\<close> gives the empty array when the store has no value
  under the key or has the empty string; for any other stored text it gives exactly what
  \<open>JSON.parse\<close> gives for that text: the parsed value, whatever its shape, or the
  \<open>SyntaxError\<close> that \<open>JSON.parse\<close> throws, which reaches the caller.
\<close>

theorem load_is_parse_of_stored_text:
  "(localStorage ''transactions'' = None \<longrightarrow> loadTransactions localStorage = Inr (JArray [])) \<and>
   (localStorage ''transactions'' = Some [] \<longrightarrow> loadTransactions localStorage = Inr (JArray [])) \<and>
   (localStorage ''transactions'' = Some text \<and> text \<noteq> [] \<longrightarrow>
      loadTransactions localStorage = JSON_parse text)"
  by (simp add: loadTransactions_def)

theorem load_is_parse_of_stored_text_witness:
  \<open>loadTransactions Map.empty = Inr (JArray []) \<and>
   loadTransactions [''transactions'' \<mapsto> ''''] = Inr (JArray []) \<and>
   loadTransactions [''transactions'' \<mapsto> ''[{"id":"1709287200000","amount":100}]''] =
     Inr (JArray [JObject [(map of_char ''id'', JString (map of_char ''1709287200000'')),
                           (map of_char ''amount'', JNumber (Fin 100))]])\<close>
proof -
  have \<open>JSON_parse ''[{"id":"1709287200000","amount":100}]'' =
     Inr (JArray [JObject [(map of_char ''id'', JString (map of_char ''1709287200000'')),
                           (map of_char ''amount'', JNumber (Fin 100))]])\<close>
    by code_simp
  then show ?thesis
    using load_is_parse_of_stored_text [of Map.empty]
      load_is_parse_of_stored_text [of "[''transactions'' \<mapsto> '''']"]
      load_is_parse_of_stored_text
        [of \<open>[''transactions'' \<mapsto> ''[{"id":"1709287200000","amount":100}]'']\<close>
            \<open>''[{"id":"1709287200000","amount":100}]''\<close>]
    by simp
qed

text \<open>
  A stored text that is not JSON makes \<open>loadTransactions\<close> throw, and a stored text that
  is JSON but no array is returned as it is: here the number 42.
\<close>

theorem load_throws_on_corrupt_text:
  "loadTransactions [''transactions'' \<mapsto> ''{''] = Inl SyntaxError \<and>
   loadTransactions [''transactions'' \<mapsto> ''42''] = Inr (JNumber (Fin 42))"
  by code_simp

section \<open>Further properties\<close>

lemma map_id_new:
  "map id_tx (map (\<lambda>(now, stamp, e). newTransaction (toString now) stamp e) cs) =
     map toString (map fst cs)"
  by (induction cs) (auto simp add: newTransaction_def)

text \<open>
  X1. Where the claim of C2 does hold: when the calls of a run read pairwise different
  clock values, and none of their texts is an id of the ledger already, the ids stay
  distinct.
\<close>

theorem distinct_clock_distinct_ids:
  assumes "distinct (map fst cs)"
    and "distinct (map id_tx (transactions st))"
    and "toString ` fst ` set cs \<inter> id_tx ` set (transactions st) = {}"
  shows "distinct (map id_tx (transactions (addCalls cs st)))"
proof -
  have ids: "map id_tx (transactions (addCalls cs st)) =
      rev (map toString (map fst cs)) @ map id_tx (transactions st)"
    by (simp only: addCalls_transactions map_append rev_map [symmetric] map_id_new)
  have "inj_on toString (set (map fst cs))"
    by (rule inj_onI) (rule toString_inj)
  with assms(1) have "distinct (map toString (map fst cs))"
    by (simp only: distinct_map)
  with assms(2,3) show ?thesis
    unfolding ids by (auto)
qed

theorem distinct_clock_distinct_ids_witness:
  "distinct (map id_tx (transactions
     (addCalls [(1709460000000, ''2024-03-03T10:00:00.000Z'', entry.truncate pay100),
                (1709460000001, ''2024-03-03T10:00:00.001Z'', entry.truncate lunch40)]
        emptyTracker)))"
  using distinct_clock_distinct_ids
    [of "[(1709460000000, ''2024-03-03T10:00:00.000Z'', entry.truncate pay100),
          (1709460000001, ''2024-03-03T10:00:00.001Z'', entry.truncate lunch40)]" emptyTracker]
  by (simp add: emptyTracker_def)

text \<open>
  X2. A submission is accepted iff all five checks pass. A rejected submission leaves the
  tracker as it was; an accepted one adds one transaction, with the trimmed title and
  the parsed amount.
\<close>

theorem submit_accepts_iff_all_checks_pass:
  "(fst (handleFormSubmit now stamp frm st) = [] \<longleftrightarrow>
      trim (titleValue frm) \<noteq> [] \<and>
      \<not> (amountValue frm = [] \<or> jsle (parseFloat (amountValue frm)) (Fin 0)) \<and>
      typeValue frm \<noteq> [] \<and> categoryValue frm \<noteq> [] \<and> dateValue frm \<noteq> []) \<and>
   (fst (handleFormSubmit now stamp frm st) \<noteq> [] \<longrightarrow> snd (handleFormSubmit now stamp frm st) = st) \<and>
   (fst (handleFormSubmit now stamp frm st) = [] \<longrightarrow>
      snd (handleFormSubmit now stamp frm st) =
        addTransaction now stamp
          \<lparr>title = trim (titleValue frm), amount = parseFloat (amountValue frm),
           type_tx = typeValue frm, category = categoryValue frm, date = dateValue frm\<rparr> st)"
  by (auto simp add: handleFormSubmit_def Let_def)

theorem submit_accepts_iff_all_checks_pass_witness:
  "fst (handleFormSubmit 1709460000000 ''2024-03-03T10:00:00.000Z'' (giftForm ''0'') emptyTracker) \<noteq> [] \<and>
   snd (handleFormSubmit 1709460000000 ''2024-03-03T10:00:00.000Z'' (giftForm ''0'') emptyTracker) = emptyTracker \<and>
   fst (handleFormSubmit 1709460000000 ''2024-03-03T10:00:00.000Z'' (giftForm ''0.01'') emptyTracker) = [] \<and>
   map amount (transactions (snd (handleFormSubmit 1709460000000 ''2024-03-03T10:00:00.000Z''
      (giftForm ''0.01'') emptyTracker))) = [Fin (5764607523034235 / 576460752303423488)]"
proof -
  have "parseFloat ''0'' = Fin 0"
    "parseFloat ''0.01'' = Fin (5764607523034235 / 576460752303423488)"
    by code_simp+
  then show ?thesis
    using submit_accepts_iff_all_checks_pass
        [of 1709460000000 "''2024-03-03T10:00:00.000Z''" "giftForm ''0''" emptyTracker]
      submit_accepts_iff_all_checks_pass
        [of 1709460000000 "''2024-03-03T10:00:00.000Z''" "giftForm ''0.01''" emptyTracker]
      trim_Gift
    by (simp add: giftForm_def addTransaction_def newTransaction_def emptyTracker_def
       )
qed

end
